theory Spec2Isabelle
  imports Main "HOL-Library.Multiset"
begin

section \<open>Python values\<close>

text \<open>
  The objects that reach \<^verbatim>\<open>LibEntry\<close> and \<^verbatim>\<open>LibTuner\<close> as arguments, cache-key
  components and compile-time constants. A device buffer (the only kind of object with a
  \<^verbatim>\<open>data_ptr\<close> attribute) carries its element type and the address \<^verbatim>\<open>data_ptr()\<close>
  returns. A float is kept by its \<^verbatim>\<open>repr\<close>; no arithmetic is done on it. A callable is
  opaque. Python's integers are unbounded, so they are \<^typ>\<open>int\<close>.
\<close>

type_synonym dtype = string

datatype pytype = TInt | TBool | TFloat | TStr | TNone | TDtype | TType | TTuple
  | TTensor | TFunction

datatype pyval =
    Tensor dtype int
  | IntV int
  | BoolV bool
  | FloatV string
  | StrV string
  | NoneV
  | DtypeV dtype
  | TypeV pytype
  | TupleV "pyval list"
  | CallableV

text \<open>\<^verbatim>\<open>hasattr(arg, "data_ptr")\<close>, \<^verbatim>\<open>arg.dtype\<close> and \<^verbatim>\<open>arg.data_ptr()\<close>.\<close>

fun hasattr_data_ptr :: "pyval \<Rightarrow> bool" where
  "hasattr_data_ptr (Tensor d p) = True"
| "hasattr_data_ptr v = False"

text \<open>\<^verbatim>\<open>type(arg)\<close>.\<close>

fun type_of :: "pyval \<Rightarrow> pytype" where
  "type_of (Tensor d p) = TTensor"
| "type_of (IntV n) = TInt"
| "type_of (BoolV b) = TBool"
| "type_of (FloatV r) = TFloat"
| "type_of (StrV s) = TStr"
| "type_of NoneV = TNone"
| "type_of (DtypeV d) = TDtype"
| "type_of (TypeV t) = TType"
| "type_of (TupleV vs) = TTuple"
| "type_of CallableV = TFunction"

text \<open>
  \<^verbatim>\<open>isinstance(arg, int)\<close>: \<^verbatim>\<open>bool\<close> is a subclass of \<^verbatim>\<open>int\<close>, so it holds of
  \<^verbatim>\<open>True\<close> and \<^verbatim>\<open>False\<close> too, which compare as 1 and 0.
\<close>

fun isinstance_int :: "pyval \<Rightarrow> bool" where
  "isinstance_int (IntV n) = True"
| "isinstance_int (BoolV b) = True"
| "isinstance_int v = False"

fun int_of :: "pyval \<Rightarrow> int" where
  "int_of (IntV n) = n"
| "int_of (BoolV b) = (if b then 1 else 0)"
| "int_of v = 0"

section \<open>Kernel parameters and the chain of decision stages\<close>

text \<open>
  A parameter of the jitted function as \<^verbatim>\<open>LibEntry\<close> reads it: \<^verbatim>\<open>name\<close>,
  \<^verbatim>\<open>num\<close>, \<^verbatim>\<open>is_constexpr\<close>, \<^verbatim>\<open>do_not_specialize\<close> and \<^verbatim>\<open>default\<close>, where
  \<^verbatim>\<open>inspect._empty\<close> is \<^const>\<open>None\<close>.
\<close>

record param =
  p_name :: string
  p_num :: nat
  p_is_constexpr :: bool
  p_do_not_specialize :: bool
  p_default :: "pyval option"

text \<open>A \<^verbatim>\<open>triton.Config\<close>, with the fields \<^verbatim>\<open>LibTuner.preload\<close> assigns.\<close>

record config =
  cfg_kwargs :: "(string \<times> pyval) list"
  num_warps :: int
  num_ctas :: int
  num_stages :: int
  enable_fp_fusion :: pyval

type_synonym pydict = "string \<rightharpoonup> pyval"

text \<open>
  \<^verbatim>\<open>self.fn\<close> is a jitted function under any number of wrappers, each with the
  attributes \<^verbatim>\<open>arg_names\<close> and \<^verbatim>\<open>fn\<close>. \<^verbatim>\<open>LibEntry.run\<close> tells them apart with
  \<^verbatim>\<open>isinstance\<close>: an \<^verbatim>\<open>Autotuner\<close> (with its \<^verbatim>\<open>best_config\<close>), a \<^verbatim>\<open>Heuristics\<close>
  (with its \<^verbatim>\<open>values\<close>, a dict from names to functions of a dict, in insertion order),
  or anything else.
\<close>

datatype runtime_fn =
    JITFunction "param list"
  | Autotuner "string list" config runtime_fn
  | Heuristics "string list" "(string \<times> (pydict \<Rightarrow> pyval)) list" runtime_fn
  | OtherFn "string list" runtime_fn

fun fn_arg_names :: "runtime_fn \<Rightarrow> string list" where
  "fn_arg_names (JITFunction ps) = map p_name ps"
| "fn_arg_names (Autotuner an c f) = an"
| "fn_arg_names (Heuristics an vs f) = an"
| "fn_arg_names (OtherFn an f) = an"

text \<open>
  The loop of \<^verbatim>\<open>LibEntry.__init__\<close> that follows \<^verbatim>\<open>fn.fn\<close> down to the
  \<^verbatim>\<open>JITFunction\<close>, whose \<^verbatim>\<open>params\<close> it keeps.
\<close>

fun jit_params :: "runtime_fn \<Rightarrow> param list" where
  "jit_params (JITFunction ps) = ps"
| "jit_params (Autotuner an c f) = jit_params f"
| "jit_params (Heuristics an vs f) = jit_params f"
| "jit_params (OtherFn an f) = jit_params f"

section \<open>LibEntry\<close>

datatype kernel = Kernel nat

type_synonym cache_entry = "kernel \<times> pydict"

text \<open>
  The object's fields. \<^verbatim>\<open>kernel_cache\<close> is a tuple of one dict per device, keyed by
  the tuple \<^verbatim>\<open>key\<close> returns. Two more fields observe what the object does to its
  collaborators: \<open>compiles\<close> counts the calls of \<^verbatim>\<open>self.fn.run\<close> (the compile and
  tune path), and \<open>launches\<close> lists the direct launches
  \<^verbatim>\<open>kernel[grid[0:3]](*k_args)\<close> in order, each with its kernel, shape and arguments.
\<close>

record LibEntry =
  fn :: runtime_fn
  arg_names :: "string list"
  divisibility :: int
  kernel_cache :: "(pyval list \<rightharpoonup> cache_entry) list"
  jit_function :: "param list"
  specialize_indices :: "nat list"
  do_not_specialize_indices :: "nat list"
  compiles :: nat
  launches :: "(kernel \<times> int list \<times> pyval list) list"

text \<open>
  \<^verbatim>\<open>LibEntry.__init__\<close>; \<open>device_count\<close> is the module constant \<^verbatim>\<open>DEVICE_COUNT\<close>.
  (The call of \<^verbatim>\<open>preload\<close> on a \<^verbatim>\<open>LibTuner\<close> in the chain changes that tuner's own
  cache, modelled with \<^verbatim>\<open>LibTuner\<close> below, and nothing of this object.)
\<close>

definition LibEntry_init :: "nat \<Rightarrow> runtime_fn \<Rightarrow> LibEntry" where
  "LibEntry_init device_count f =
     \<lparr> fn = f,
       arg_names = fn_arg_names f,
       divisibility = 16,
       kernel_cache = replicate device_count Map.empty,
       jit_function = jit_params f,
       specialize_indices =
         map p_num (filter (\<lambda>p. \<not> p_is_constexpr p \<and> \<not> p_do_not_specialize p) (jit_params f)),
       do_not_specialize_indices =
         map p_num (filter (\<lambda>p. \<not> p_is_constexpr p \<and> p_do_not_specialize p) (jit_params f)),
       compiles = 0,
       launches = [] \<rparr>"

subsection \<open>The cache key\<close>

text \<open>
  \<^verbatim>\<open>LibEntry.key\<close>. A specializing argument gives the pair of its element type and
  whether its address is a multiple of \<^verbatim>\<open>self.divisibility\<close> when it is a buffer, and the
  pair of its type and itself otherwise. A runtime-only argument gives its element type
  when it is a buffer, its type when it is no \<^verbatim>\<open>int\<close>, and one of the strings
  \<^verbatim>\<open>"i32"\<close>, \<^verbatim>\<open>"u64"\<close>, \<^verbatim>\<open>"i64"\<close> otherwise. Python's \<^verbatim>\<open>%\<close> and \<open>mod\<close> on
  \<^typ>\<open>int\<close> both take the sign of the divisor.
\<close>

fun spec_key :: "LibEntry \<Rightarrow> pyval \<Rightarrow> pyval" where
  "spec_key self (Tensor d p) = TupleV [DtypeV d, BoolV (p mod divisibility self = 0)]"
| "spec_key self arg = TupleV [TypeV (type_of arg), arg]"

definition dns_key :: "pyval \<Rightarrow> pyval" where
  "dns_key arg =
     (case arg of
        Tensor d p \<Rightarrow> DtypeV d
      | _ \<Rightarrow>
        if \<not> isinstance_int arg then TypeV (type_of arg)
        else if - (2 ^ 31) \<le> int_of arg \<and> int_of arg \<le> 2 ^ 31 - 1 then StrV ''i32''
        else if 2 ^ 63 \<le> int_of arg \<and> int_of arg \<le> 2 ^ 64 - 1 then StrV ''u64''
        else StrV ''i64'')"

definition key :: "LibEntry \<Rightarrow> pyval list \<Rightarrow> pyval list \<Rightarrow> pyval list \<Rightarrow> pyval list" where
  "key self spec_args dns_args const_args =
     map (spec_key self) spec_args @ map dns_key dns_args @ const_args"

subsection \<open>Calls and errors\<close>

text \<open>
  One call \<^verbatim>\<open>run(*args, **kwargs)\<close>. The launch shape \<^verbatim>\<open>kwargs["grid"]\<close> is a tuple
  or a callable of one dict; it is kept beside the other keyword arguments, since a
  callable is no \<^typ>\<open>pyval\<close>, and \<open>kwargs_dict\<close> is the whole of \<^verbatim>\<open>kwargs\<close>, with the
  shape under its name. \<open>device\<close> is what \<^verbatim>\<open>torch.cuda.current_device()\<close> returns during
  the call.
\<close>

datatype grid_spec = GridTuple "int list" | GridFn "pydict \<Rightarrow> int list"

record call =
  args :: "pyval list"
  kwargs :: pydict
  grid :: "grid_spec option"
  device :: nat

fun grid_obj :: "grid_spec \<Rightarrow> pyval" where
  "grid_obj (GridTuple g) = TupleV (map IntV g)"
| "grid_obj (GridFn f) = CallableV"

definition kwargs_dict :: "call \<Rightarrow> pydict" where
  "kwargs_dict c = (case grid c of None \<Rightarrow> kwargs c | Some g \<Rightarrow> (kwargs c)(''grid'' \<mapsto> grid_obj g))"

text \<open>
  The exceptions: Python's own, and \<open>ExternalError\<close> for whatever a collaborator
  (\<^verbatim>\<open>self.fn.run\<close>, \<^verbatim>\<open>eval\<close>, \<^verbatim>\<open>int\<close>) raises.
\<close>

datatype error = KeyError | IndexError | ValueError | AttributeError
  | RuntimeError string | ExternalError string

text \<open>\<^verbatim>\<open>dict(pairs)\<close>: of two pairs with one key, the later one stays.\<close>

definition dict_of :: "(string \<times> pyval) list \<Rightarrow> pydict" where
  "dict_of kvs = map_of (rev kvs)"

subsection \<open>Collecting the arguments\<close>

text \<open>The four lists \<^verbatim>\<open>run\<close> fills: \<^verbatim>\<open>spec_args\<close>, \<^verbatim>\<open>dns_args\<close>, \<^verbatim>\<open>const_args\<close>, \<^verbatim>\<open>k_args\<close>.\<close>

record arg_groups =
  spec_list :: "pyval list"
  dns_list :: "pyval list"
  const_list :: "pyval list"
  k_list :: "pyval list"

text \<open>\<^verbatim>\<open>for i, arg in enumerate(args)\<close>, from index \<open>i\<close> on.\<close>

fun collect_positional :: "LibEntry \<Rightarrow> nat \<Rightarrow> pyval list \<Rightarrow> arg_groups \<Rightarrow> arg_groups" where
  "collect_positional self i [] g = g"
| "collect_positional self i (arg # rest) g =
     collect_positional self (Suc i) rest
       (if i \<in> set (specialize_indices self)
        then g\<lparr>k_list := k_list g @ [arg], spec_list := spec_list g @ [arg]\<rparr>
        else if i \<in> set (do_not_specialize_indices self)
        then g\<lparr>k_list := k_list g @ [arg], dns_list := dns_list g @ [arg]\<rparr>
        else g\<lparr>const_list := const_list g @ [arg]\<rparr>)"

text \<open>
  \<^verbatim>\<open>for p in self.jit_function.params[len(args):]\<close>: the keyword argument of that name,
  or else the default, or else nothing (\<^verbatim>\<open>continue\<close>).
\<close>

fun collect_defaults :: "pydict \<Rightarrow> param list \<Rightarrow> arg_groups \<Rightarrow> arg_groups" where
  "collect_defaults kw [] g = g"
| "collect_defaults kw (p # ps) g =
     (case (case kw (p_name p) of Some v \<Rightarrow> Some v | None \<Rightarrow> p_default p) of
        None \<Rightarrow> collect_defaults kw ps g
      | Some val \<Rightarrow>
          collect_defaults kw ps
            (if p_is_constexpr p then g\<lparr>const_list := const_list g @ [val]\<rparr>
             else if p_do_not_specialize p
             then g\<lparr>dns_list := dns_list g @ [val], k_list := k_list g @ [val]\<rparr>
             else g\<lparr>spec_list := spec_list g @ [val], k_list := k_list g @ [val]\<rparr>))"

definition collect_args :: "LibEntry \<Rightarrow> call \<Rightarrow> arg_groups" where
  "collect_args self c =
     collect_defaults (kwargs_dict c) (drop (length (args c)) (jit_function self))
       (collect_positional self 0 (args c)
          \<lparr>spec_list = [], dns_list = [], const_list = [], k_list = []\<rparr>)"

definition entry_key :: "LibEntry \<Rightarrow> call \<Rightarrow> pyval list" where
  "entry_key self c =
     (let g = collect_args self c in key self (spec_list g) (dns_list g) (const_list g))"

subsection \<open>The compile path\<close>

text \<open>
  The walk from \<^verbatim>\<open>self.fn\<close> to the \<^verbatim>\<open>JITFunction\<close> that gathers \<^verbatim>\<open>constexprs\<close>.
  An \<^verbatim>\<open>Autotuner\<close> gives \<^verbatim>\<open>num_warps\<close> and \<^verbatim>\<open>num_stages\<close> of its best config,
  \<^verbatim>\<open>num_ctas\<close> only when that name is already there, and then the config's own kwargs. A
  \<^verbatim>\<open>Heuristics\<close> gives each of its values in turn, computed from the positional arguments
  by name, the keyword arguments and the constants so far. Any other wrapper raises.
  The heuristics are functions of their argument alone.
\<close>

definition autotuner_constexprs :: "config \<Rightarrow> pydict \<Rightarrow> pydict" where
  "autotuner_constexprs cfg cx =
     (let cx1 = cx(''num_warps'' \<mapsto> IntV (num_warps cfg));
          cx2 = cx1(''num_stages'' \<mapsto> IntV (num_stages cfg));
          cx3 = (if ''num_ctas'' \<in> dom cx2 then cx2(''num_ctas'' \<mapsto> IntV (num_ctas cfg)) else cx2)
      in cx3 ++ dict_of (cfg_kwargs cfg))"

fun heuristics_constexprs ::
  "string list \<Rightarrow> pyval list \<Rightarrow> pydict \<Rightarrow> (string \<times> (pydict \<Rightarrow> pyval)) list \<Rightarrow> pydict \<Rightarrow> pydict" where
  "heuristics_constexprs an as kw [] cx = cx"
| "heuristics_constexprs an as kw ((v, heur) # rest) cx =
     heuristics_constexprs an as kw rest (cx(v \<mapsto> heur (dict_of (zip an as) ++ kw ++ cx)))"

fun collect_constexprs :: "runtime_fn \<Rightarrow> pyval list \<Rightarrow> pydict \<Rightarrow> pydict \<Rightarrow> error + pydict" where
  "collect_constexprs (JITFunction ps) as kw cx = Inr cx"
| "collect_constexprs (Autotuner an cfg f) as kw cx =
     collect_constexprs f as kw (autotuner_constexprs cfg cx)"
| "collect_constexprs (Heuristics an vals f) as kw cx =
     collect_constexprs f as kw (heuristics_constexprs an as kw vals cx)"
| "collect_constexprs (OtherFn an f) as kw cx = Inl (RuntimeError ''Invalid Runtime Function'')"

text \<open>
  \<^verbatim>\<open>for p in self.jit_function.params\<close>: a constant parameter that has a default and no
  value yet takes its default.
\<close>

fun constexpr_defaults :: "param list \<Rightarrow> pydict \<Rightarrow> pydict" where
  "constexpr_defaults [] cx = cx"
| "constexpr_defaults (p # ps) cx =
     constexpr_defaults ps
       (case p_default p of
          Some d \<Rightarrow> if p_is_constexpr p \<and> p_name p \<notin> dom cx then cx(p_name p \<mapsto> d) else cx
        | None \<Rightarrow> cx)"

text \<open>
  \<^verbatim>\<open>self.fn.run(*args, **kwargs)\<close> belongs to Triton: it tunes, compiles and launches,
  returns the compiled kernel or raises, and leaves each autotuner's \<^verbatim>\<open>best_config\<close> set.
  It is a parameter \<open>fn_run\<close> of the model, from the chain and the call to an error or the
  kernel with the chain as the call leaves it.

  The body of \<^verbatim>\<open>with self.lock\<close> once the key is known to be missing: compile, gather the
  constants, store the pair under the key in the device's dict, and return the pair.
\<close>

type_synonym fn_run = "runtime_fn \<Rightarrow> call \<Rightarrow> error + kernel \<times> runtime_fn"

definition compile_path ::
  "fn_run \<Rightarrow> LibEntry \<Rightarrow> call \<Rightarrow> pyval list \<Rightarrow> LibEntry \<times> (error + cache_entry)" where
  "compile_path fn_run self c ek =
     (case fn_run (fn self) c of
        Inl e \<Rightarrow> (self\<lparr>compiles := Suc (compiles self)\<rparr>, Inl e)
      | Inr (kern, f') \<Rightarrow>
          let self1 = self\<lparr>fn := f', compiles := Suc (compiles self)\<rparr> in
          (case collect_constexprs f' (args c) (kwargs_dict c) Map.empty of
             Inl e \<Rightarrow> (self1, Inl e)
           | Inr cx \<Rightarrow>
               let constexprs = constexpr_defaults (jit_function self) cx;
                   cache = kernel_cache self ! device c
               in (self1\<lparr>kernel_cache :=
                            (kernel_cache self)[device c := cache(ek \<mapsto> (kern, constexprs))]\<rparr>,
                   Inr (kern, constexprs))))"

subsection \<open>The launch path\<close>

text \<open>
  A callable shape is applied to the dict merged from the positional arguments by name,
  the keyword arguments and the cached constants, later ones winning. Then
  \<^verbatim>\<open>grid = grid + (1, 1)\<close>, and the kernel is launched on \<^verbatim>\<open>grid[0:3]\<close> with
  \<^verbatim>\<open>k_args\<close>. The shape functions are functions of their argument alone.
\<close>

definition grid_meta :: "LibEntry \<Rightarrow> call \<Rightarrow> pydict \<Rightarrow> pydict" where
  "grid_meta self c constexprs = dict_of (zip (arg_names self) (args c)) ++ kwargs_dict c ++ constexprs"

definition resolve_grid :: "LibEntry \<Rightarrow> call \<Rightarrow> grid_spec \<Rightarrow> pydict \<Rightarrow> int list" where
  "resolve_grid self c g constexprs =
     (case g of GridFn f \<Rightarrow> f (grid_meta self c constexprs) | GridTuple t \<Rightarrow> t)"

definition launch_path ::
  "LibEntry \<Rightarrow> call \<Rightarrow> grid_spec \<Rightarrow> cache_entry \<Rightarrow> LibEntry \<times> (error + cache_entry)" where
  "launch_path self c g entry =
     (case entry of (kern, constexprs) \<Rightarrow>
        let grid1 = resolve_grid self c g constexprs @ [1, 1] in
        (self\<lparr>launches := launches self @ [(kern, take 3 grid1, k_list (collect_args self c))]\<rparr>,
         Inr (kern, constexprs)))"

subsection \<open>run\<close>

text \<open>
  \<^verbatim>\<open>LibEntry.run\<close>, one caller at a time. \<^verbatim>\<open>kwargs["grid"]\<close> raises when the shape is
  missing, and \<^verbatim>\<open>self.kernel_cache[device]\<close> when there is no such device. The body of
  \<^verbatim>\<open>while entry_key not in cache\<close> ends in \<^verbatim>\<open>break\<close>, \<^verbatim>\<open>return\<close> or an exception, so it
  runs at most once: under the lock the key is tested again, and a key still missing
  takes the compile path, which returns from \<^verbatim>\<open>run\<close>. Only a key found in the dict goes
  on to the launch path.
\<close>

definition run :: "fn_run \<Rightarrow> LibEntry \<Rightarrow> call \<Rightarrow> LibEntry \<times> (error + cache_entry)" where
  "run fn_run self c =
     (case grid c of
        None \<Rightarrow> (self, Inl KeyError)
      | Some g \<Rightarrow>
          let ek = entry_key self c in
          if length (kernel_cache self) \<le> device c then (self, Inl IndexError)
          else
            let cache = kernel_cache self ! device c in
            (case cache ek of
               None \<Rightarrow>
                 (case cache ek of
                    Some entry \<Rightarrow> launch_path self c g entry
                  | None \<Rightarrow> compile_path fn_run self c ek)
             | Some entry \<Rightarrow> launch_path self c g entry))"

text \<open>
  Whether the walk over a chain meets a wrapper that is neither an \<^verbatim>\<open>Autotuner\<close> nor a
  \<^verbatim>\<open>Heuristics\<close> before it meets the \<^verbatim>\<open>JITFunction\<close>.
\<close>

fun unrecognized_stage :: "runtime_fn \<Rightarrow> bool" where
  "unrecognized_stage (JITFunction ps) = False"
| "unrecognized_stage (Autotuner an cfg f) = unrecognized_stage f"
| "unrecognized_stage (Heuristics an vals f) = unrecognized_stage f"
| "unrecognized_stage (OtherFn an f) = True"



subsection \<open>A kernel to run the model on\<close>

text \<open>
  A kernel \<^verbatim>\<open>(x_ptr, n, BLOCK: tl.constexpr)\<close> with \<^verbatim>\<open>do_not_specialize=["n"]\<close> under
  an autotuner whose best config is \<^verbatim>\<open>{"BLOCK": 128}\<close>; the same kernel under a wrapper
  \<^verbatim>\<open>run\<close> does not know; the entry built on each, for one device; a
  \<^verbatim>\<open>self.fn.run\<close> that always returns kernel 0 and leaves the
  chain as it is; a call on a 16-byte aligned buffer with \<^verbatim>\<open>n = 1000\<close> on device 0; and a
  launch shape computed from \<^verbatim>\<open>BLOCK\<close>.
\<close>

definition ex_params :: "param list" where
  "ex_params =
     [\<lparr>p_name = ''x_ptr'', p_num = 0, p_is_constexpr = False, p_do_not_specialize = False,
        p_default = None\<rparr>,
      \<lparr>p_name = ''n'', p_num = 1, p_is_constexpr = False, p_do_not_specialize = True,
        p_default = None\<rparr>,
      \<lparr>p_name = ''BLOCK'', p_num = 2, p_is_constexpr = True, p_do_not_specialize = False,
        p_default = None\<rparr>]"

definition ex_config :: config where
  "ex_config = \<lparr>cfg_kwargs = [(''BLOCK'', IntV 128)], num_warps = 4, num_ctas = 1,
     num_stages = 2, enable_fp_fusion = BoolV True\<rparr>"

definition ex_chain :: runtime_fn where
  "ex_chain = Autotuner [''x_ptr'', ''n'', ''BLOCK''] ex_config (JITFunction ex_params)"

definition ex_bad_chain :: runtime_fn where
  "ex_bad_chain = OtherFn [''x_ptr'', ''n'', ''BLOCK''] (JITFunction ex_params)"

definition ex_entry :: LibEntry where
  "ex_entry = LibEntry_init 1 ex_chain"

definition ex_bad_entry :: LibEntry where
  "ex_bad_entry = LibEntry_init 1 ex_bad_chain"

definition ex_fn_run :: fn_run where
  "ex_fn_run f c = Inr (Kernel 0, f)"

definition ex_call :: "grid_spec \<Rightarrow> call" where
  "ex_call g = \<lparr>args = [Tensor ''float16'' 4096, IntV 1000], kwargs = Map.empty,
     grid = Some g, device = 0\<rparr>"


section \<open>LibTuner\<close>

subsection \<open>Strings and lists as Python slices them\<close>

text \<open>
  \<^verbatim>\<open>s.split(sep)\<close> for a separator that is not empty: the pieces between the occurrences
  of \<open>sep\<close>, found from the left; there is always at least one piece. \<open>cur\<close> holds the
  piece being read, reversed.
\<close>

function split_from :: "string \<Rightarrow> string \<Rightarrow> string \<Rightarrow> string list" where
  "split_from sep cur [] = [rev cur]"
| "split_from sep cur (c # cs) =
     (if sep \<noteq> [] \<and> take (length sep) (c # cs) = sep
      then rev cur # split_from sep [] (drop (length sep) (c # cs))
      else split_from sep (c # cur) cs)"
  by pat_completeness auto
termination
  by (relation "measure (\<lambda>(sep, cur, s). length s)") auto

definition split_on :: "string \<Rightarrow> string \<Rightarrow> string list" where
  "split_on sep s = split_from sep [] s"

text \<open>
  \<^verbatim>\<open>xs[-n]\<close> for \<open>n > 0\<close>, which raises \<^verbatim>\<open>IndexError\<close> on a list shorter than \<open>n\<close>;
  \<^verbatim>\<open>xs[1]\<close>; and the unpacking \<^verbatim>\<open>k, v = item\<close>, which raises \<^verbatim>\<open>ValueError\<close> unless
  the item has two elements. \<^verbatim>\<open>s[1:-1]\<close> is \<open>butlast (tl s)\<close>, \<^verbatim>\<open>s[:-1]\<close> is
  \<open>butlast s\<close>, and \<^verbatim>\<open>xs[:-4]\<close> is \<open>take (length xs - 4) xs\<close>.
\<close>

definition from_end :: "'a list \<Rightarrow> nat \<Rightarrow> error + 'a" where
  "from_end xs n = (if n \<le> length xs then Inr (xs ! (length xs - n)) else Inl IndexError)"

definition second :: "'a list \<Rightarrow> error + 'a" where
  "second xs = (if 2 \<le> length xs then Inr (xs ! 1) else Inl IndexError)"

fun unpack2 :: "'a list \<Rightarrow> error + 'a \<times> 'a" where
  "unpack2 [k, v] = Inr (k, v)"
| "unpack2 xs = Inl ValueError"

subsection \<open>The store, the cache and what Python and Triton provide\<close>

text \<open>
  The SQLite file holds one table per kernel name, of rows \<^verbatim>\<open>(key TEXT, config TEXT)\<close>
  in insertion order. A table remembers whether its declaration constrains \<^verbatim>\<open>key\<close> to
  be unique: \<^verbatim>\<open>INSERT OR IGNORE\<close> leaves a row out only when inserting it would violate a
  constraint of the table. The statement both methods execute,
  \<^verbatim>\<open>CREATE TABLE IF NOT EXISTS name (key TEXT, config TEXT)\<close>, declares no constraint, and
  leaves a table that exists as it is.
\<close>

type_synonym row = "string \<times> string"

record table =
  key_unique :: bool
  rows :: "row list"

type_synonym database = "string \<rightharpoonup> table"

definition create_table_if_not_exists :: "string \<Rightarrow> database \<Rightarrow> database" where
  "create_table_if_not_exists nm db =
     (case db nm of Some t \<Rightarrow> db | None \<Rightarrow> db(nm \<mapsto> \<lparr>key_unique = False, rows = []\<rparr>))"

definition insert_or_ignore :: "row \<Rightarrow> table \<Rightarrow> table" where
  "insert_or_ignore r t =
     (if key_unique t \<and> fst r \<in> fst ` set (rows t) then t else t\<lparr>rows := rows t @ [r]\<rparr>)"

text \<open>
  A key of the autotuner's \<^verbatim>\<open>cache\<close> dict. Triton's \<^verbatim>\<open>Autotuner.run\<close> stores and
  looks up tuples. \<^verbatim>\<open>preload\<close> stores under
  \<^verbatim>\<open>(self.getvalue(k) for k in key_str[1:-1].split(", "))\<close>, a generator object: the
  list it ranges over is computed when the object is made, the calls of \<^verbatim>\<open>getvalue\<close> are
  not made until something iterates it, and it is equal to itself only, so it carries the
  identity it was made with.
\<close>

datatype cache_key = TupleKey "pyval list" | GeneratorKey nat "string list"

text \<open>
  A dict in insertion order: storing under a key that is present replaces the value where
  it stands, storing under a new key appends.
\<close>

fun dict_set :: "'k \<Rightarrow> 'v \<Rightarrow> ('k \<times> 'v) list \<Rightarrow> ('k \<times> 'v) list" where
  "dict_set k v [] = [(k, v)]"
| "dict_set k v ((k', v') # kvs) =
     (if k' = k then (k, v) # kvs else (k', v') # dict_set k v kvs)"

text \<open>
  The tuner: \<^verbatim>\<open>__name__\<close>, the \<^verbatim>\<open>cache\<close> dict, and the identity the next object made
  will get.
\<close>

record LibTuner =
  tuner_name :: string
  cache :: "(cache_key \<times> config) list"
  next_id :: nat

text \<open>
  What the methods call and do not define: Python's \<^verbatim>\<open>eval\<close> and \<^verbatim>\<open>int\<close> on a string,
  \<^verbatim>\<open>getattr(torch, name)\<close>, \<^verbatim>\<open>str\<close> of a cache key and Triton's \<^verbatim>\<open>Config.__str__\<close>.
  They are parameters of the model.
\<close>

record builtins =
  py_eval :: "string \<Rightarrow> error + pyval"
  py_int :: "string \<Rightarrow> error + int"
  torch_attr :: "string \<Rightarrow> error + pyval"
  str_key :: "cache_key \<Rightarrow> string"
  str_config :: "config \<Rightarrow> string"

subsection \<open>getvalue, preload and store\<close>

text \<open>
  \<^verbatim>\<open>LibTuner.getvalue\<close>: \<^verbatim>\<open>eval(key)\<close>, and when that raises,
  \<^verbatim>\<open>getattr(torch, key.split(".")[1][:-1])\<close>, whose exceptions are not caught.
\<close>

definition getvalue :: "builtins \<Rightarrow> string \<Rightarrow> error + pyval" where
  "getvalue B k =
     (case py_eval B k of
        Inr v \<Rightarrow> Inr v
      | Inl e \<Rightarrow>
          (case second (split_on ''.'' k) of
             Inl e' \<Rightarrow> Inl e'
           | Inr part \<Rightarrow> torch_attr B (butlast part)))"

text \<open>What iterating a generator key yields, up to the first exception.\<close>

fun getvalues :: "builtins \<Rightarrow> string list \<Rightarrow> error + pyval list" where
  "getvalues B [] = Inr []"
| "getvalues B (k # ks) =
     (case getvalue B k of
        Inl e \<Rightarrow> Inl e
      | Inr v \<Rightarrow> (case getvalues B ks of Inl e \<Rightarrow> Inl e | Inr vs \<Rightarrow> Inr (v # vs)))"

text \<open>\<^verbatim>\<open>for k, v in cfg_ls[:-4]: config.kwargs[k] = eval(v)\<close>.\<close>

fun load_kwargs ::
  "builtins \<Rightarrow> string list list \<Rightarrow> (string \<times> pyval) list \<Rightarrow> error + (string \<times> pyval) list" where
  "load_kwargs B [] kw = Inr kw"
| "load_kwargs B (item # items) kw =
     (case unpack2 item of
        Inl e \<Rightarrow> Inl e
      | Inr (k, v) \<Rightarrow>
          (case py_eval B v of
             Inl e \<Rightarrow> Inl e
           | Inr x \<Rightarrow> load_kwargs B items (dict_set k x kw)))"

text \<open>The field \<^verbatim>\<open>cfg_ls[-n][1]\<close>.\<close>

definition cfg_field :: "string list list \<Rightarrow> nat \<Rightarrow> error + string" where
  "cfg_field cfg_ls n = (case from_end cfg_ls n of Inl e \<Rightarrow> Inl e | Inr item \<Rightarrow> second item)"

definition int_field :: "builtins \<Rightarrow> string list list \<Rightarrow> nat \<Rightarrow> error + int" where
  "int_field B cfg_ls n = (case cfg_field cfg_ls n of Inl e \<Rightarrow> Inl e | Inr s \<Rightarrow> py_int B s)"

text \<open>
  The part of the loop body of \<^verbatim>\<open>preload\<close> that rebuilds the config from
  \<^verbatim>\<open>config_str\<close>: nothing in it is inside a \<^verbatim>\<open>try\<close>.
\<close>

definition load_config :: "builtins \<Rightarrow> string \<Rightarrow> error + config" where
  "load_config B config_str =
     (let cfg_ls = map (split_on '': '') (split_on '', '' config_str) in
      case load_kwargs B (take (length cfg_ls - 4) cfg_ls) [] of
        Inl e \<Rightarrow> Inl e
      | Inr kw \<Rightarrow>
      (case int_field B cfg_ls 4 of
        Inl e \<Rightarrow> Inl e
      | Inr nw \<Rightarrow>
      (case int_field B cfg_ls 3 of
        Inl e \<Rightarrow> Inl e
      | Inr nc \<Rightarrow>
      (case int_field B cfg_ls 2 of
        Inl e \<Rightarrow> Inl e
      | Inr ns \<Rightarrow>
      (case cfg_field cfg_ls 1 of
        Inl e \<Rightarrow> Inl e
      | Inr s \<Rightarrow>
      (case py_eval B s of
        Inl e \<Rightarrow> Inl e
      | Inr fp \<Rightarrow>
          Inr \<lparr>cfg_kwargs = kw, num_warps = nw, num_ctas = nc, num_stages = ns,
               enable_fp_fusion = fp\<rparr>))))))"

text \<open>One turn of \<^verbatim>\<open>for row in cursor\<close>, and the loop, which an exception leaves.\<close>

definition load_row :: "builtins \<Rightarrow> row \<Rightarrow> LibTuner \<Rightarrow> error + LibTuner" where
  "load_row B r t =
     (case r of (key_str, config_str) \<Rightarrow>
        let k = GeneratorKey (next_id t) (split_on '', '' (butlast (tl key_str))) in
        case load_config B config_str of
          Inl e \<Rightarrow> Inl e
        | Inr cfg \<Rightarrow> Inr (t\<lparr>cache := dict_set k cfg (cache t), next_id := Suc (next_id t)\<rparr>))"

fun load_rows :: "builtins \<Rightarrow> row list \<Rightarrow> LibTuner \<Rightarrow> error + LibTuner" where
  "load_rows B [] t = Inr t"
| "load_rows B (r # rs) t =
     (case load_row B r t of Inl e \<Rightarrow> Inl e | Inr t' \<Rightarrow> load_rows B rs t')"

text \<open>
  \<^verbatim>\<open>LibTuner.preload\<close>: the store with the table made if it was missing, and the tuner
  with every row loaded, or the exception.
\<close>

definition table_rows :: "database \<Rightarrow> string \<Rightarrow> row list" where
  "table_rows db nm = (case db nm of Some t \<Rightarrow> rows t | None \<Rightarrow> [])"

definition preload :: "builtins \<Rightarrow> database \<Rightarrow> LibTuner \<Rightarrow> database \<times> (error + LibTuner)" where
  "preload B db t =
     (let db1 = create_table_if_not_exists (tuner_name t) db
      in (db1, load_rows B (table_rows db1 (tuner_name t)) t))"

text \<open>
  A tuner as \<^verbatim>\<open>__init__\<close> leaves it: the cache that \<^verbatim>\<open>Autotuner.__init__\<close> makes is
  empty, and \<^verbatim>\<open>preload\<close> fills it.
\<close>

definition LibTuner_init :: "builtins \<Rightarrow> database \<Rightarrow> string \<Rightarrow> database \<times> (error + LibTuner)" where
  "LibTuner_init B db nm = preload B db \<lparr>tuner_name = nm, cache = [], next_id = 0\<rparr>"

text \<open>
  \<^verbatim>\<open>LibTuner.store\<close>: one \<^verbatim>\<open>INSERT OR IGNORE\<close> per item of the cache, in its order.
\<close>

definition store :: "builtins \<Rightarrow> database \<Rightarrow> LibTuner \<Rightarrow> database" where
  "store B db t =
     (let db1 = create_table_if_not_exists (tuner_name t) db
      in case db1 (tuner_name t) of
           None \<Rightarrow> db1
         | Some tbl \<Rightarrow>
             db1(tuner_name t \<mapsto>
               fold (\<lambda>(k, cfg). insert_or_ignore (str_key B k, str_config B cfg)) (cache t) tbl))"

text \<open>\<^verbatim>\<open>key in self.cache\<close> and \<^verbatim>\<open>self.cache[key]\<close>, as the autotuner asks for a tuple.\<close>

definition cache_lookup :: "LibTuner \<Rightarrow> pyval list \<Rightarrow> config option" where
  "cache_lookup t vs = map_of (cache t) (TupleKey vs)"

subsection \<open>Python and Triton on literals\<close>

text \<open>
  An instance of the parameters, for running the model: \<^verbatim>\<open>eval\<close> on the literals that
  \<^verbatim>\<open>str\<close> writes for integers, booleans, \<^verbatim>\<open>None\<close> and plain strings, \<^verbatim>\<open>int\<close> on
  decimal digits, three attributes of \<^verbatim>\<open>torch\<close>, \<^verbatim>\<open>str\<close> of a tuple and of a generator
  object, and a \<^verbatim>\<open>Config.__str__\<close> that writes the kwargs and then the four fields
  \<^verbatim>\<open>preload\<close> reads back, in its order.
\<close>

definition digit_chars :: string where
  "digit_chars = ''0123456789''"

definition digit_of :: "char \<Rightarrow> nat option" where
  "digit_of c = map_of (zip digit_chars [0, 1, 2, 3, 4, 5, 6, 7, 8, 9]) c"

fun nat_of_digits :: "nat \<Rightarrow> string \<Rightarrow> nat option" where
  "nat_of_digits acc [] = Some acc"
| "nat_of_digits acc (c # cs) =
     (case digit_of c of None \<Rightarrow> None | Some d \<Rightarrow> nat_of_digits (10 * acc + d) cs)"

definition int_literal :: "string \<Rightarrow> int option" where
  "int_literal s =
     (case s of
        [] \<Rightarrow> None
      | c # cs \<Rightarrow>
          if c = CHR ''-''
          then (if cs = [] then None else map_option (\<lambda>n. - int n) (nat_of_digits 0 cs))
          else map_option int (nat_of_digits 0 s))"

fun show_nat :: "nat \<Rightarrow> string" where
  "show_nat n =
     (if n < 10 then [digit_chars ! n] else show_nat (n div 10) @ [digit_chars ! (n mod 10)])"

declare show_nat.simps [simp del]

definition show_int :: "int \<Rightarrow> string" where
  "show_int i = (if i < 0 then CHR ''-'' # show_nat (nat (- i)) else show_nat (nat i))"

fun join :: "string \<Rightarrow> string list \<Rightarrow> string" where
  "join sep [] = []"
| "join sep [x] = x"
| "join sep (x # y # ys) = x @ sep @ join sep (y # ys)"

definition tuple_str :: "string list \<Rightarrow> string" where
  "tuple_str xs = (case xs of [x] \<Rightarrow> ''('' @ x @ '',)'' | _ \<Rightarrow> ''('' @ join '', '' xs @ '')'')"

fun repr :: "pyval \<Rightarrow> string" where
  "repr (IntV n) = show_int n"
| "repr (BoolV b) = (if b then ''True'' else ''False'')"
| "repr NoneV = ''None''"
| "repr (StrV s) = [CHR 0x27] @ s @ [CHR 0x27]"
| "repr (FloatV r) = r"
| "repr (DtypeV d) = ''torch.'' @ d"
| "repr (TupleV vs) = tuple_str (map repr vs)"
| "repr (Tensor d p) = ''tensor(...)''"
| "repr (TypeV t) = ''<class>''"
| "repr CallableV = ''<function>''"

definition ex_eval :: "string \<Rightarrow> error + pyval" where
  "ex_eval s =
     (case int_literal s of
        Some n \<Rightarrow> Inr (IntV n)
      | None \<Rightarrow>
          if s = ''True'' then Inr (BoolV True)
          else if s = ''False'' then Inr (BoolV False)
          else if s = ''None'' then Inr NoneV
          else if 2 \<le> length s \<and> hd s = CHR 0x27 \<and> last s = CHR 0x27
          then Inr (StrV (butlast (tl s)))
          else Inl (ExternalError ''eval''))"

definition ex_int :: "string \<Rightarrow> error + int" where
  "ex_int s = (case int_literal s of Some n \<Rightarrow> Inr n | None \<Rightarrow> Inl ValueError)"

definition ex_torch :: "string \<Rightarrow> error + pyval" where
  "ex_torch nm =
     (if nm \<in> set [''float16'', ''float32'', ''bfloat16''] then Inr (DtypeV nm)
      else Inl AttributeError)"

fun ex_str_key :: "cache_key \<Rightarrow> string" where
  "ex_str_key (TupleKey vs) = tuple_str (map repr vs)"
| "ex_str_key (GeneratorKey i toks) =
     ''<generator object LibTuner.preload.<locals>.<genexpr>>''"

definition ex_str_config :: "config \<Rightarrow> string" where
  "ex_str_config c =
     join '', ''
       (map (\<lambda>(k, v). k @ '': '' @ repr v) (cfg_kwargs c) @
        [''num_warps: '' @ show_int (num_warps c),
         ''num_ctas: '' @ show_int (num_ctas c),
         ''num_stages: '' @ show_int (num_stages c),
         ''enable_fp_fusion: '' @ repr (enable_fp_fusion c)])"

definition ex_builtins :: builtins where
  "ex_builtins = \<lparr>py_eval = ex_eval, py_int = ex_int, torch_attr = ex_torch,
     str_key = ex_str_key, str_config = ex_str_config\<rparr>"

text \<open>
  Two configs for the shape \<^verbatim>\<open>(64, 64)\<close>, the text \<^verbatim>\<open>Config.__str__\<close> gives each, and
  a tuner that has resolved the shape to the first.
\<close>

definition ex_config_b :: config where
  "ex_config_b = \<lparr>cfg_kwargs = [(''BLOCK'', IntV 256)], num_warps = 8, num_ctas = 1,
     num_stages = 3, enable_fp_fusion = BoolV True\<rparr>"

definition ex_config_str :: string where
  "ex_config_str = ''BLOCK: 128, num_warps: 4, num_ctas: 1, num_stages: 2, enable_fp_fusion: True''"

definition ex_config_b_str :: string where
  "ex_config_b_str = ''BLOCK: 256, num_warps: 8, num_ctas: 1, num_stages: 3, enable_fp_fusion: True''"

definition ex_tuner :: LibTuner where
  "ex_tuner = \<lparr>tuner_name = ''addlike'', cache = [(TupleKey [IntV 64, IntV 64], ex_config)],
     next_id = 0\<rparr>"

text \<open>
  Every key of a cache is a generator object whose identity is below \<open>n\<close>: so it is of a
  tuner that holds nothing but what \<^verbatim>\<open>preload\<close> stored.
\<close>

definition generators_below :: "nat \<Rightarrow> (cache_key \<times> config) list \<Rightarrow> bool" where
  "generators_below n kvs \<longleftrightarrow> list_all (\<lambda>(k, v). case k of GeneratorKey i toks \<Rightarrow> i < n | TupleKey vs \<Rightarrow> False) kvs"

text \<open>
  A tuner whose cache maps the shape \<^verbatim>\<open>(64, 64)\<close> to the second config, and a stored
  table whose first row has a config text of one field.
\<close>

definition ex_tuner_b :: LibTuner where
  "ex_tuner_b = \<lparr>tuner_name = ''addlike'', cache = [(TupleKey [IntV 64, IntV 64], ex_config_b)],
     next_id = 0\<rparr>"

definition ex_bad_db :: database where
  "ex_bad_db = [''addlike'' \<mapsto>
     \<lparr>key_unique = False, rows = [(''(32, 32)'', ''oops''), (''(64, 64)'', ex_config_str)]\<rparr>]"

text \<open>
  A row that can be decoded in full: \<^verbatim>\<open>getvalue\<close> returns on every token of its key
  text, and its config text can be read.
\<close>

definition row_decodes :: "builtins \<Rightarrow> row \<Rightarrow> bool" where
  "row_decodes B r \<longleftrightarrow>
     (\<exists>vs. getvalues B (split_on '', '' (butlast (tl (fst r)))) = Inr vs) \<and>
     (\<exists>cfg. load_config B (snd r) = Inr cfg)"


section \<open>Properties of the cache key\<close>

lemma key_nth_spec:
  "i < length spec_args \<Longrightarrow>
   key self spec_args dns_args const_args ! i = spec_key self (spec_args ! i)"
  by (simp add: key_def nth_append)

lemma key_nth_dns:
  "j < length dns_args \<Longrightarrow>
   key self spec_args dns_args const_args ! (length spec_args + j) = dns_key (dns_args ! j)"
  by (simp add: key_def nth_append)

lemma dns_key_int:
  "isinstance_int arg \<Longrightarrow>
   dns_key arg =
     StrV (if - (2 ^ 31) \<le> int_of arg \<and> int_of arg \<le> 2 ^ 31 - 1 then ''i32''
           else if 2 ^ 63 \<le> int_of arg \<and> int_of arg \<le> 2 ^ 64 - 1 then ''u64''
           else ''i64'')"
  by (cases arg) (simp_all add: dns_key_def)

lemma dns_key_other:
  "\<not> isinstance_int arg \<Longrightarrow> \<not> hasattr_data_ptr arg \<Longrightarrow> dns_key arg = TypeV (type_of arg)"
  by (cases arg) (simp_all add: dns_key_def)

text \<open>
  C6. Two lists of specializing arguments that hold, at the same position, buffers of the
  same element type of which exactly one has an address divisible by 16 give different
  keys, whatever the other arguments are: the keys differ at that position.
\<close>

theorem key_alignment_sensitive:
  assumes "i < length spec1" and "i < length spec2"
    and "spec1 ! i = Tensor d p1" and "spec2 ! i = Tensor d p2"
    and "(p1 mod 16 = 0) \<noteq> (p2 mod 16 = 0)"
  shows "key (LibEntry_init n f) spec1 dns1 const1 \<noteq> key (LibEntry_init n f) spec2 dns2 const2"
proof
  let ?self = "LibEntry_init n f"
  assume eq: "key ?self spec1 dns1 const1 = key ?self spec2 dns2 const2"
  have "key ?self spec1 dns1 const1 ! i = TupleV [DtypeV d, BoolV (p1 mod 16 = 0)]"
    using assms(1,3) by (simp add: key_nth_spec LibEntry_init_def)
  moreover have "key ?self spec2 dns2 const2 ! i = TupleV [DtypeV d, BoolV (p2 mod 16 = 0)]"
    using assms(2,4) by (simp add: key_nth_spec LibEntry_init_def)
  ultimately show False using eq assms(5) by simp
qed

theorem key_alignment_sensitive_witness:
  "key (LibEntry_init 1 (JITFunction [])) [IntV 7, Tensor ''float16'' 4096] [] []
     \<noteq> key (LibEntry_init 1 (JITFunction [])) [IntV 7, Tensor ''float16'' 4104] [] []"
  using key_alignment_sensitive [of 1 "[IntV 7, Tensor ''float16'' 4096]"
      "[IntV 7, Tensor ''float16'' 4104]" "''float16''" 4096 4104 1 "JITFunction []" "[]" "[]" "[]" "[]"]
  by simp

text \<open>
  C9. A runtime-only argument that is an \<^verbatim>\<open>int\<close> contributes exactly one of the three
  width tags to the key, at its position after the specializing arguments:
  \<^verbatim>\<open>"i32"\<close> exactly when it lies in \<open>[-2^31, 2^31 - 1]\<close>, \<^verbatim>\<open>"u64"\<close> exactly when it lies
  in \<open>[2^63, 2^64 - 1]\<close>, and \<^verbatim>\<open>"i64"\<close> exactly when it lies in neither range; a
  runtime-only argument that is neither an \<^verbatim>\<open>int\<close> nor a buffer contributes its type.
  (A \<^verbatim>\<open>bool\<close> is an \<^verbatim>\<open>int\<close> for \<^verbatim>\<open>isinstance\<close>; as 0 or 1 it gets \<^verbatim>\<open>"i32"\<close>.)
\<close>

theorem key_dns_width_class:
  assumes "j < length dns_args"
    and "k = key self spec_args dns_args const_args ! (length spec_args + j)"
    and "a = dns_args ! j"
  shows "(isinstance_int a \<longrightarrow>
            (k = StrV ''i32'' \<or> k = StrV ''u64'' \<or> k = StrV ''i64'') \<and>
            (k = StrV ''i32'' \<longleftrightarrow> - (2 ^ 31) \<le> int_of a \<and> int_of a \<le> 2 ^ 31 - 1) \<and>
            (k = StrV ''u64'' \<longleftrightarrow> 2 ^ 63 \<le> int_of a \<and> int_of a \<le> 2 ^ 64 - 1) \<and>
            (k = StrV ''i64'' \<longleftrightarrow>
               \<not> (- (2 ^ 31) \<le> int_of a \<and> int_of a \<le> 2 ^ 31 - 1) \<and>
               \<not> (2 ^ 63 \<le> int_of a \<and> int_of a \<le> 2 ^ 64 - 1)))
       \<and> (\<not> isinstance_int a \<and> \<not> hasattr_data_ptr a \<longrightarrow> k = TypeV (type_of a))"
proof -
  have k: "k = dns_key a"
    using assms by (simp add: key_nth_dns)
  show ?thesis
  proof (cases "isinstance_int a")
    case True
    then show ?thesis unfolding k by (simp add: dns_key_int)
  next
    case False
    then show ?thesis unfolding k by (simp add: dns_key_other)
  qed
qed

theorem key_dns_width_class_witness:
  "key (LibEntry_init 1 (JITFunction [])) [Tensor ''float16'' 64]
       [IntV 5, IntV (2 ^ 63), IntV (2 ^ 64), IntV (- (2 ^ 31) - 1), BoolV True, FloatV ''0.5''] []
     = [TupleV [DtypeV ''float16'', BoolV True],
        StrV ''i32'', StrV ''u64'', StrV ''i64'', StrV ''i64'', StrV ''i32'', TypeV TFloat]
   \<and> (key (LibEntry_init 1 (JITFunction [])) [Tensor ''float16'' 64]
         [IntV 5, IntV (2 ^ 63)] [] ! (length [Tensor ''float16'' 64] + 1) = StrV ''u64''
        \<longleftrightarrow> 2 ^ 63 \<le> int_of (IntV (2 ^ 63)) \<and> int_of (IntV (2 ^ 63)) \<le> 2 ^ 64 - 1)"
  using key_dns_width_class [of 1 "[IntV 5, IntV (2 ^ 63)]" _ "LibEntry_init 1 (JITFunction [])"
      "[Tensor ''float16'' 64]" "[]" "IntV (2 ^ 63)", OF _ refl]
  by (simp add: key_def dns_key_def LibEntry_init_def)

section \<open>Properties of run\<close>

lemma collect_constexprs_unrecognized:
  "unrecognized_stage f \<Longrightarrow>
   collect_constexprs f as kw cx = Inl (RuntimeError ''Invalid Runtime Function'')"
  by (induction f arbitrary: cx) simp_all


lemma run_miss:
  assumes "grid c = Some g" and "device c < length (kernel_cache self)"
    and "(kernel_cache self ! device c) (entry_key self c) = None"
  shows "run fn_run self c = compile_path fn_run self c (entry_key self c)"
  using assms by (simp add: run_def Let_def)





lemma collect_positional_k:
  "mset (k_list g) = mset (spec_list g) + mset (dns_list g) \<Longrightarrow>
   mset (k_list (collect_positional self i as g)) =
     mset (spec_list (collect_positional self i as g)) + mset (dns_list (collect_positional self i as g))"
  by (induction as arbitrary: i g) simp_all

lemma collect_defaults_k:
  "mset (k_list g) = mset (spec_list g) + mset (dns_list g) \<Longrightarrow>
   mset (k_list (collect_defaults kw ps g)) =
     mset (spec_list (collect_defaults kw ps g)) + mset (dns_list (collect_defaults kw ps g))"
  by (induction ps arbitrary: g) (simp_all split: option.splits)

lemma collect_args_k:
  "mset (k_list (collect_args self c)) =
     mset (spec_list (collect_args self c)) + mset (dns_list (collect_args self c))"
  unfolding collect_args_def
  by (rule collect_defaults_k, rule collect_positional_k) simp





text \<open>
  The positions \<^verbatim>\<open>__init__\<close> lists as specializing or runtime-only are those of the
  parameters that are not compile-time constants.
\<close>

lemma LibEntry_init_indices:
  "i \<in> set (specialize_indices (LibEntry_init n f)) \<or>
   i \<in> set (do_not_specialize_indices (LibEntry_init n f)) \<longleftrightarrow>
     (\<exists>p \<in> set (jit_params f). p_num p = i \<and> \<not> p_is_constexpr p)"
  by (auto simp: LibEntry_init_def)
















subsection \<open>The example kernel\<close>






subsection \<open>Dispatch\<close>

text \<open>
  C8. On a call whose key is missing from the device's dict, when \<^verbatim>\<open>self.fn.run\<close> has
  returned and the walk over the chain meets a wrapper that is neither an \<^verbatim>\<open>Autotuner\<close>
  nor a \<^verbatim>\<open>Heuristics\<close> before the \<^verbatim>\<open>JITFunction\<close>, \<^verbatim>\<open>run\<close> raises
  \<^verbatim>\<open>RuntimeError("Invalid Runtime Function")\<close>: it returns no pair, stores nothing in the
  cache and launches nothing.
\<close>

theorem run_invalid_stage:
  assumes "grid c = Some g" and "device c < length (kernel_cache self)"
    and "(kernel_cache self ! device c) (entry_key self c) = None"
    and "fn_run (fn self) c = Inr (kern, f')"
    and "unrecognized_stage f'"
  shows "run fn_run self c =
           (self\<lparr>fn := f', compiles := Suc (compiles self)\<rparr>,
            Inl (RuntimeError ''Invalid Runtime Function''))"
  using assms(4,5)
  by (simp add: run_miss [OF assms(1-3)] compile_path_def collect_constexprs_unrecognized)

theorem run_invalid_stage_witness:
  "run ex_fn_run ex_bad_entry (ex_call (GridTuple [4])) =
     (ex_bad_entry\<lparr>fn := ex_bad_chain, compiles := Suc 0\<rparr>,
      Inl (RuntimeError ''Invalid Runtime Function''))"
  using run_invalid_stage [of "ex_call (GridTuple [4])" "GridTuple [4]"
      ex_bad_entry ex_fn_run "Kernel 0" ex_bad_chain]
  by (simp add: ex_call_def ex_entry_def ex_bad_entry_def LibEntry_init_def ex_fn_run_def ex_bad_chain_def)









section \<open>Properties of LibTuner\<close>

lemma ex_str_a: "ex_str_config ex_config = ex_config_str"
  by (simp add: ex_str_config_def ex_config_def ex_config_str_def show_int_def show_nat.simps digit_chars_def)

lemma ex_str_b: "ex_str_config ex_config_b = ex_config_b_str"
  by (simp add: ex_str_config_def ex_config_b_def ex_config_b_str_def show_int_def show_nat.simps digit_chars_def)

lemma ex_tuple_str: "tuple_str [show_int 64, show_int 64] = ''(64, 64)''"
  by (simp add: tuple_str_def show_int_def show_nat.simps digit_chars_def)

lemma ex_key_str: "ex_str_key (TupleKey [IntV 64, IntV 64]) = ''(64, 64)''"
  by (simp add: ex_tuple_str)

lemma ex_load_a: "load_config ex_builtins ex_config_str = Inr ex_config"
  by (simp add: load_config_def ex_config_str_def split_on_def ex_builtins_def
      int_field_def cfg_field_def from_end_def second_def ex_eval_def ex_int_def int_literal_def
      digit_of_def digit_chars_def ex_config_def)

lemma ex_load_bad: "load_config B ''oops'' = Inl IndexError"
  by (simp add: load_config_def split_on_def
      int_field_def cfg_field_def from_end_def second_def)

lemma table_rows_create:
  "table_rows (create_table_if_not_exists nm db) nm = table_rows db nm"
  by (simp add: table_rows_def create_table_if_not_exists_def split: option.splits)

lemma fold_insert_or_ignore:
  "\<not> key_unique tbl \<Longrightarrow>
   fold (\<lambda>(k, cfg). insert_or_ignore (f k, g cfg)) kvs tbl =
     tbl\<lparr>rows := rows tbl @ map (\<lambda>(k, cfg). (f k, g cfg)) kvs\<rparr>"
  by (induction kvs arbitrary: tbl) (auto simp: insert_or_ignore_def)

lemma store_appends:
  assumes "case db (tuner_name t) of None \<Rightarrow> True | Some tbl \<Rightarrow> \<not> key_unique tbl"
  shows "table_rows (store B db t) (tuner_name t) =
           table_rows db (tuner_name t) @
           map (\<lambda>(k, cfg). (str_key B k, str_config B cfg)) (cache t)"
  using assms
  by (auto simp: store_def Let_def create_table_if_not_exists_def table_rows_def
      fold_insert_or_ignore split: option.splits)

lemma dict_set_new: "k \<notin> fst ` set kvs \<Longrightarrow> dict_set k v kvs = kvs @ [(k, v)]"
  by (induction kvs) auto

lemma generators_below_fresh:
  "generators_below n kvs \<Longrightarrow> GeneratorKey n toks \<notin> fst ` set kvs"
  by (induction kvs) (auto simp: generators_below_def split: cache_key.splits)

lemma generators_below_lookup:
  "generators_below n kvs \<Longrightarrow> map_of kvs (TupleKey vs) = None"
  by (induction kvs) (auto simp: generators_below_def split: cache_key.splits)

lemma generators_below_mono:
  "generators_below n kvs \<Longrightarrow> generators_below (Suc n) kvs"
  by (induction kvs) (auto simp: generators_below_def split: cache_key.splits)

lemma load_row_ok:
  assumes "load_config B (snd r) = Inr cfg" and "generators_below (next_id t) (cache t)"
  shows "load_row B r t =
           Inr (t\<lparr>cache := cache t @
                     [(GeneratorKey (next_id t) (split_on '', '' (butlast (tl (fst r)))), cfg)],
                  next_id := Suc (next_id t)\<rparr>)"
  using assms generators_below_fresh [OF assms(2)]
  by (cases r) (simp add: load_row_def Let_def dict_set_new)

lemma load_row_bad:
  "load_config B (snd r) = Inl e \<Longrightarrow> load_row B r t = Inl e"
  by (cases r) (simp add: load_row_def Let_def)

lemma load_rows_ok:
  assumes "list_all (\<lambda>r. \<exists>cfg. load_config B (snd r) = Inr cfg) rs"
    and "generators_below (next_id t) (cache t)"
  shows "\<exists>t' news. load_rows B rs t = Inr t' \<and>
           generators_below (next_id t') (cache t') \<and>
           tuner_name t' = tuner_name t \<and>
           cache t' = cache t @ news \<and>
           map (\<lambda>(k, cfg). Inr cfg) news = map (\<lambda>r. load_config B (snd r)) rs"
  using assms
proof (induction rs arbitrary: t)
  case Nil
  then show ?case by simp
next
  case (Cons r rs)
  then obtain cfg where cfg: "load_config B (snd r) = Inr cfg" by auto
  let ?new = "(GeneratorKey (next_id t) (split_on '', '' (butlast (tl (fst r)))), cfg)"
  let ?t1 = "t\<lparr>cache := cache t @ [?new], next_id := Suc (next_id t)\<rparr>"
  have r1: "load_row B r t = Inr ?t1"
    using cfg Cons.prems(2) by (rule load_row_ok)
  have g1: "generators_below (next_id ?t1) (cache ?t1)"
    using generators_below_mono [OF Cons.prems(2)] by (simp add: generators_below_def)
  have "list_all (\<lambda>r. \<exists>cfg. load_config B (snd r) = Inr cfg) rs"
    using Cons.prems(1) by simp
  from Cons.IH [OF this g1] obtain t' news where t': "load_rows B rs ?t1 = Inr t'"
    "generators_below (next_id t') (cache t')" "tuner_name t' = tuner_name ?t1"
    "cache t' = cache ?t1 @ news"
    "map (\<lambda>(k, cfg). Inr cfg) news = map (\<lambda>r. load_config B (snd r)) rs"
    by blast
  have "load_rows B (r # rs) t = Inr t'"
    using r1 t'(1) by simp
  moreover have "cache t' = cache t @ (?new # news)"
    using t'(4) by simp
  moreover have "map (\<lambda>(k, cfg). Inr cfg) (?new # news) = map (\<lambda>r. load_config B (snd r)) (r # rs)"
    using t'(5) cfg by simp
  moreover have "tuner_name t' = tuner_name t"
    using t'(3) by simp
  ultimately show ?case
    using t'(2) by blast
qed

lemma load_rows_abort:
  assumes "list_all (\<lambda>r. \<exists>cfg. load_config B (snd r) = Inr cfg) rs1"
    and "load_config B (snd r) = Inl e"
    and "generators_below (next_id t) (cache t)"
  shows "load_rows B (rs1 @ r # rs2) t = Inl e"
  using assms
proof (induction rs1 arbitrary: t)
  case Nil
  then show ?case by (simp add: load_row_bad)
next
  case (Cons a rs1)
  then obtain cfg where cfg: "load_config B (snd a) = Inr cfg" by auto
  let ?t1 = "t\<lparr>cache := cache t @
                     [(GeneratorKey (next_id t) (split_on '', '' (butlast (tl (fst a)))), cfg)],
                  next_id := Suc (next_id t)\<rparr>"
  have r1: "load_row B a t = Inr ?t1"
    using cfg Cons.prems(3) by (rule load_row_ok)
  have g1: "generators_below (next_id ?t1) (cache ?t1)"
    using generators_below_mono [OF Cons.prems(3)] by (simp add: generators_below_def)
  have "load_rows B (rs1 @ r # rs2) ?t1 = Inl e"
    using Cons.IH [OF _ Cons.prems(2) g1] Cons.prems(1) by simp
  then show ?case using r1 by simp
qed

subsection \<open>Flush and reload\<close>

text \<open>
  Whatever the store holds, a tuner that \<^verbatim>\<open>__init__\<close> has built holds no tuple key: a
  lookup of any shape misses.
\<close>

lemma LibTuner_init_no_tuple_key:
  assumes "LibTuner_init B db nm = (db', Inr t')"
  shows "cache_lookup t' vs = None"
proof -
  let ?t0 = "\<lparr>tuner_name = nm, cache = [], next_id = 0\<rparr>"
  have l: "load_rows B (table_rows db nm) ?t0 = Inr t'"
    using assms by (simp add: LibTuner_init_def preload_def Let_def table_rows_create)
  have "generators_below (next_id t') (cache t')"
  proof -
    have "list_all (\<lambda>r. \<exists>cfg. load_config B (snd r) = Inr cfg) rs"
      if "load_rows B rs t = Inr t'" for rs t
      using that
    proof (induction rs arbitrary: t)
      case Nil
      then show ?case by simp
    next
      case (Cons r rs)
      then show ?case
        by (cases r) (auto simp: load_row_def Let_def split: sum.splits)
    qed
    from this [OF l] have "list_all (\<lambda>r. \<exists>cfg. load_config B (snd r) = Inr cfg) (table_rows db nm)" .
    from load_rows_ok [OF this, of ?t0] l show ?thesis
      by (auto simp: generators_below_def)
  qed
  then show ?thesis
    by (simp add: cache_lookup_def generators_below_lookup)
qed

text \<open>
  C3. Insert-if-absent would leave one row for the shape. Here a first tuner has stored
  \<^verbatim>\<open>(64, 64)\<close> with the first config; a second tuner whose cache maps \<^verbatim>\<open>(64, 64)\<close> to
  the second config is stored over the same table. The first row is as it was, and the
  table now holds a second row for the same key with the other config: the table has no
  constraint that \<^verbatim>\<open>OR IGNORE\<close> could act on.
\<close>

theorem store_keeps_and_duplicates:
  "table_rows (store ex_builtins Map.empty ex_tuner) ''addlike'' = [(''(64, 64)'', ex_config_str)] \<and>
   table_rows (store ex_builtins (store ex_builtins Map.empty ex_tuner) ex_tuner_b) ''addlike'' =
     [(''(64, 64)'', ex_config_str), (''(64, 64)'', ex_config_b_str)]"
proof -
  have a: "table_rows (store ex_builtins Map.empty ex_tuner) (tuner_name ex_tuner) =
      [(''(64, 64)'', ex_config_str)]"
    by (subst store_appends)
      (simp_all add: ex_tuner_def table_rows_def ex_builtins_def ex_str_a ex_tuple_str)
  have u: "case store ex_builtins Map.empty ex_tuner (tuner_name ex_tuner_b) of
      None \<Rightarrow> True | Some tbl \<Rightarrow> \<not> key_unique tbl"
    by (simp add: store_def Let_def create_table_if_not_exists_def ex_tuner_def ex_tuner_b_def
        insert_or_ignore_def)
  have b: "table_rows (store ex_builtins (store ex_builtins Map.empty ex_tuner) ex_tuner_b)
      (tuner_name ex_tuner_b) =
      table_rows (store ex_builtins Map.empty ex_tuner) (tuner_name ex_tuner_b) @
      [(''(64, 64)'', ex_config_b_str)]"
    using store_appends [of "store ex_builtins Map.empty ex_tuner" ex_tuner_b ex_builtins, OF u]
    by (simp add: ex_tuner_b_def ex_builtins_def ex_str_b ex_tuple_str)
  show ?thesis
    using a b by (simp add: ex_tuner_def ex_tuner_b_def)
qed

text \<open>
  C4. The round trip would bring back an entry under the key \<^verbatim>\<open>(64, 64)\<close>. Here the
  tuner that resolved \<^verbatim>\<open>(64, 64)\<close> is stored into an empty store, and a fresh tuner is
  built over that store. Its cache holds the config with its four fields and kwargs as they
  were, under a generator object; a lookup of \<^verbatim>\<open>(64, 64)\<close> misses.
\<close>

theorem store_preload_loses_key:
  "cache_lookup ex_tuner [IntV 64, IntV 64] = Some ex_config \<and>
   LibTuner_init ex_builtins (store ex_builtins Map.empty ex_tuner) ''addlike'' =
     (store ex_builtins Map.empty ex_tuner,
      Inr \<lparr>tuner_name = ''addlike'',
           cache = [(GeneratorKey 0 [''64'', ''64''], ex_config)], next_id = 1\<rparr>) \<and>
   cache_lookup \<lparr>tuner_name = ''addlike'',
           cache = [(GeneratorKey 0 [''64'', ''64''], ex_config)], next_id = 1\<rparr>
     [IntV 64, IntV 64] = None"
proof -
  have a: "table_rows (store ex_builtins Map.empty ex_tuner) ''addlike'' =
      [(''(64, 64)'', ex_config_str)]"
    using store_appends [of Map.empty ex_tuner ex_builtins]
    by (simp add: ex_tuner_def table_rows_def ex_builtins_def ex_str_a ex_tuple_str)
  have c: "create_table_if_not_exists ''addlike'' (store ex_builtins Map.empty ex_tuner) =
      store ex_builtins Map.empty ex_tuner"
    by (simp add: store_def Let_def create_table_if_not_exists_def ex_tuner_def)
  have l: "load_rows ex_builtins [(''(64, 64)'', ex_config_str)]
      \<lparr>tuner_name = ''addlike'', cache = [], next_id = 0\<rparr> =
      Inr \<lparr>tuner_name = ''addlike'',
           cache = [(GeneratorKey 0 [''64'', ''64''], ex_config)], next_id = 1\<rparr>"
    by (simp add: load_row_def Let_def ex_load_a split_on_def)
  have "LibTuner_init ex_builtins (store ex_builtins Map.empty ex_tuner) ''addlike'' =
     (store ex_builtins Map.empty ex_tuner,
      Inr \<lparr>tuner_name = ''addlike'',
           cache = [(GeneratorKey 0 [''64'', ''64''], ex_config)], next_id = 1\<rparr>)"
    unfolding LibTuner_init_def preload_def Let_def by (simp only: LibTuner.simps c a l)
  moreover have "cache_lookup ex_tuner [IntV 64, IntV 64] = Some ex_config"
    by (simp add: cache_lookup_def ex_tuner_def)
  moreover have "cache_lookup \<lparr>tuner_name = ''addlike'',
           cache = [(GeneratorKey 0 [''64'', ''64''], ex_config)], next_id = 1\<rparr>
     [IntV 64, IntV 64] = None"
    by (simp add: cache_lookup_def)
  ultimately show ?thesis by (intro conjI)
qed

lemma row_decodes_config:
  "list_all (row_decodes B) rs \<Longrightarrow> list_all (\<lambda>r. \<exists>cfg. load_config B (snd r) = Inr cfg) rs"
  by (induction rs) (simp_all add: row_decodes_def)

lemma ex_getvalue: "getvalue ex_builtins ''64'' = Inr (IntV 64)"
  by (simp add: getvalue_def ex_builtins_def ex_eval_def int_literal_def digit_of_def
      digit_chars_def)

text \<open>
  C5, amended. When \<^verbatim>\<open>eval\<close> raises on a key token, \<^verbatim>\<open>getvalue\<close> looks the name
  after the first dot, less its last character, up in \<^verbatim>\<open>torch\<close>. No row is skipped. When
  every row of the table can be decoded, building a tuner loads every row, in order. When
  the config text of some row cannot be read, while its key tokens and the rows before it
  can be decoded, building the tuner raises that row's exception: no tuner with the other
  rows comes out.
\<close>

theorem preload_decodes_or_aborts:
  "(\<forall>k e. py_eval B k = Inl e \<longrightarrow>
      getvalue B k =
        (case second (split_on ''.'' k) of
           Inl e' \<Rightarrow> Inl e'
         | Inr part \<Rightarrow> torch_attr B (butlast part)))
   \<and> (list_all (row_decodes B) (table_rows db nm) \<longrightarrow>
        (\<exists>t'. snd (LibTuner_init B db nm) = Inr t' \<and>
              map (\<lambda>(k, cfg). Inr cfg) (cache t') =
                map (\<lambda>r. load_config B (snd r)) (table_rows db nm)))
   \<and> (\<forall>rs1 r rs2 e.
        table_rows db nm = rs1 @ r # rs2 \<and>
        list_all (row_decodes B) rs1 \<and>
        (\<exists>vs. getvalues B (split_on '', '' (butlast (tl (fst r)))) = Inr vs) \<and>
        load_config B (snd r) = Inl e \<longrightarrow>
        snd (LibTuner_init B db nm) = Inl e)"
proof (intro conjI allI impI)
  fix k e
  assume "py_eval B k = Inl e"
  then show "getvalue B k =
        (case second (split_on ''.'' k) of
           Inl e' \<Rightarrow> Inl e'
         | Inr part \<Rightarrow> torch_attr B (butlast part))"
    by (simp add: getvalue_def)
next
  let ?t0 = "\<lparr>tuner_name = nm, cache = [], next_id = 0\<rparr>"
  assume "list_all (row_decodes B) (table_rows db nm)"
  then have "list_all (\<lambda>r. \<exists>cfg. load_config B (snd r) = Inr cfg) (table_rows db nm)"
    by (rule row_decodes_config)
  from load_rows_ok [OF this, of ?t0]
  show "\<exists>t'. snd (LibTuner_init B db nm) = Inr t' \<and>
              map (\<lambda>(k, cfg). Inr cfg) (cache t') =
                map (\<lambda>r. load_config B (snd r)) (table_rows db nm)"
    by (auto simp: LibTuner_init_def preload_def Let_def table_rows_create generators_below_def)
next
  let ?t0 = "\<lparr>tuner_name = nm, cache = [], next_id = 0\<rparr>"
  fix rs1 r rs2 e
  assume a: "table_rows db nm = rs1 @ r # rs2 \<and>
        list_all (row_decodes B) rs1 \<and>
        (\<exists>vs. getvalues B (split_on '', '' (butlast (tl (fst r)))) = Inr vs) \<and>
        load_config B (snd r) = Inl e"
  then have "list_all (\<lambda>r. \<exists>cfg. load_config B (snd r) = Inr cfg) rs1"
    by (simp add: row_decodes_config)
  then have "load_rows B (rs1 @ r # rs2) ?t0 = Inl e"
    using a by (intro load_rows_abort) (simp_all add: generators_below_def)
  then show "snd (LibTuner_init B db nm) = Inl e"
    using a by (simp add: LibTuner_init_def preload_def Let_def table_rows_create)
qed

theorem preload_decodes_or_aborts_witness:
  "getvalue ex_builtins (''torch.float16'' @ [CHR 0x27]) = Inr (DtypeV ''float16'') \<and>
   (\<exists>t'. snd (LibTuner_init ex_builtins (store ex_builtins Map.empty ex_tuner) ''addlike'') = Inr t' \<and>
         map snd (cache t') = [ex_config])"
proof -
  have a: "table_rows (store ex_builtins Map.empty ex_tuner) ''addlike'' =
      [(''(64, 64)'', ex_config_str)]"
    using store_appends [of Map.empty ex_tuner ex_builtins]
    by (simp add: ex_tuner_def table_rows_def ex_builtins_def ex_str_a ex_tuple_str)
  have e: "py_eval ex_builtins (''torch.float16'' @ [CHR 0x27]) = Inl (ExternalError ''eval'')"
    by (simp add: ex_builtins_def ex_eval_def int_literal_def digit_of_def digit_chars_def)
  have d: "row_decodes ex_builtins (''(64, 64)'', ex_config_str)"
    by (simp add: row_decodes_def split_on_def ex_getvalue ex_load_a)
  note t = preload_decodes_or_aborts [of ex_builtins "store ex_builtins Map.empty ex_tuner" "''addlike''"]
  have "getvalue ex_builtins (''torch.float16'' @ [CHR 0x27]) = Inr (DtypeV ''float16'')"
    using t e by (simp add: second_def split_on_def ex_builtins_def ex_torch_def)
  moreover have "\<exists>t'. snd (LibTuner_init ex_builtins (store ex_builtins Map.empty ex_tuner) ''addlike'') = Inr t' \<and>
         map (\<lambda>(k, cfg). Inr cfg) (cache t') = [load_config ex_builtins ex_config_str]"
    using t d by (simp add: a)
  then have "\<exists>t'. snd (LibTuner_init ex_builtins (store ex_builtins Map.empty ex_tuner) ''addlike'') = Inr t' \<and>
         map snd (cache t') = [ex_config]"
    by (auto simp: ex_load_a)
  ultimately show ?thesis by simp
qed

text \<open>
  C5 as stated fails: over a table whose first row has the config text \<^verbatim>\<open>oops\<close> and
  whose second row is well formed, building the tuner raises \<^verbatim>\<open>IndexError\<close>.
\<close>

theorem preload_aborts_counterexample:
  "snd (LibTuner_init ex_builtins ex_bad_db ''addlike'') = Inl IndexError"
  by (simp add: LibTuner_init_def preload_def Let_def create_table_if_not_exists_def
      ex_bad_db_def table_rows_def load_row_def ex_load_bad)

end
